theory Spec2Isabelle
  imports Complex_Main
begin

section \<open>Conventions of the embedding\<close>

text \<open>
  The three calculators of the repository (\<^verbatim>\<open>CostofDebt.py\<close>, \<^verbatim>\<open>CostofEquity.py\<close>,
  \<^verbatim>\<open>WACC.py\<close>) are embedded as functions on records of their attributes.

  \<^item> A Python \<^verbatim>\<open>float\<close> is a \<^typ>\<open>real\<close>: arithmetic is exact, and the values
    \<^verbatim>\<open>nan\<close> and \<^verbatim>\<open>inf\<close> do not exist. Where Python's float division raises
    \<^verbatim>\<open>ZeroDivisionError\<close> the model returns that error instead of HOL's \<open>x / 0 = 0\<close>.
  \<^item> An attribute that starts as \<^verbatim>\<open>None\<close> is an \<^typ>\<open>'a option\<close>.
  \<^item> An exception that leaves a method is \<open>Inl\<close> of a \<open>py_error\<close>; a normal return is
    \<open>Inr\<close> of the returned value and the updated attributes.
  \<^item> \<^verbatim>\<open>input()\<close> reads from a list of lines that is handed on; an exhausted list is
    \<^verbatim>\<open>EOFError\<close>.
  \<^item> A \<^verbatim>\<open>str\<close> is a \<^typ>\<open>string\<close> of ASCII characters.
  \<^item> Of what the methods print, only the two outcome notices of the rating assignment are
    kept (attribute \<open>console\<close>); no caller receives printed text as a value.
\<close>

datatype py_error =
    ZeroDivisionError
  | IndexError
  | KeyError
  | TypeError
  | EOFError
  | ComplexResult
    \<comment> \<open>not an exception: Python goes on with a \<^verbatim>\<open>complex\<close> value, which the
        real-valued model does not follow\<close>

subsection \<open>Strings: \<^verbatim>\<open>str.upper\<close> and \<^verbatim>\<open>str.strip\<close> on ASCII\<close>

definition upper_char :: "char \<Rightarrow> char" where
  "upper_char c =
     (let n = (of_char c :: nat)
      in if 97 \<le> n \<and> n \<le> 122 then char_of (n - 32) else c)"

definition upper :: "string \<Rightarrow> string" where
  "upper s = map upper_char s"

definition isspace :: "char \<Rightarrow> bool" where
  "isspace c =
     (let n = (of_char c :: nat)
      in (9 \<le> n \<and> n \<le> 13) \<or> (28 \<le> n \<and> n \<le> 32))"

definition strip :: "string \<Rightarrow> string" where
  "strip s = rev (dropWhile isspace (rev (dropWhile isspace s)))"

subsection \<open>Cells and sheets read by pandas\<close>

text \<open>
  A cell is empty (\<^verbatim>\<open>NaN\<close>/\<^verbatim>\<open>None\<close>, for which \<^verbatim>\<open>pd.notna\<close> is false), a number
  (\<^verbatim>\<open>int\<close> or \<^verbatim>\<open>float\<close>) or a text. Python's \<^verbatim>\<open>float(str)\<close> and \<^verbatim>\<open>str(float)\<close> are
  parameters \<open>pf\<close> and \<open>ps\<close> of the functions that use them: \<open>pf s = None\<close> stands for
  the \<^verbatim>\<open>ValueError\<close> of an unparsable text.
\<close>

datatype cell = Blank | Num real | Text string

fun notna :: "cell \<Rightarrow> bool" where
  "notna Blank = False"
| "notna _ = True"

fun is_number :: "cell \<Rightarrow> bool" where
  "is_number (Num _) = True"
| "is_number _ = False"

fun py_float :: "(string \<Rightarrow> real option) \<Rightarrow> cell \<Rightarrow> real option" where
  "py_float pf (Num x) = Some x"
| "py_float pf (Text s) = pf s"
| "py_float pf Blank = None"

fun py_str :: "(real \<Rightarrow> string) \<Rightarrow> cell \<Rightarrow> string" where
  "py_str ps (Text s) = s"
| "py_str ps (Num x) = ps x"
| "py_str ps Blank = ''nan''"


text \<open>
  \<open>py_float\<close> and \<open>py_str\<close> are only applied to cells that passed \<open>notna\<close>; their
  value at \<open>Blank\<close> is never used.

  What \<^verbatim>\<open>os.path.exists\<close> and \<^verbatim>\<open>pd.read_excel\<close> deliver is the input of a loader: the file
  is missing, reading it raises, or it holds a sheet.
\<close>

datatype 'a file_read = NotFound | ReadError | Loaded 'a

text \<open>
  A sheet read with a header row: the column labels and the data rows. pandas frames are
  rectangular (a short row is padded with \<^verbatim>\<open>NaN\<close>), so a cell beyond the end of a row
  reads as \<open>Blank\<close>. \<open>column_index\<close> is the position of a label among the columns.
\<close>

record dataframe =
  columns :: "string list"
  rows :: "cell list list"

fun column_index :: "string list \<Rightarrow> string \<Rightarrow> nat" where
  "column_index [] name = 0"
| "column_index (c # cs) name = (if c = name then 0 else Suc (column_index cs name))"

definition cell_at :: "cell list \<Rightarrow> nat \<Rightarrow> cell" where
  "cell_at row i = (if i < length row then row ! i else Blank)"

text \<open>The \<^verbatim>\<open>for col in possible_..._columns: if col in df.columns: ...; break\<close> loop.\<close>

fun first_present :: "string list \<Rightarrow> string list \<Rightarrow> string option" where
  "first_present [] cols = None"
| "first_present (c # cs) cols = (if c \<in> set cols then Some c else first_present cs cols)"

subsection \<open>\<^verbatim>\<open>BetaCalculator.load_bond_yield_data\<close> and \<^verbatim>\<open>BetaCalculator.load_erp_data\<close>\<close>

text \<open>
  Of the calculator's attributes each loader touches one, \<^verbatim>\<open>self.bond_yield_data\<close> or
  \<^verbatim>\<open>self.erp_data\<close>: the model takes its old value and returns the returned flag with its
  new value. The dictionaries are maps from country keys to values.
  \<^verbatim>\<open>CostOfDebtCalculator.load_bond_yield_data\<close> has the same body as the bond loader here.
\<close>

definition possible_yield_columns :: "string list" where
  "possible_yield_columns = [''Yield 10y'', ''10Y Yield'', ''Yield'', ''10 Year Yield'']"

definition possible_erp_columns :: "string list" where
  "possible_erp_columns = [''Total Equity Risk Premium'', ''Equity Risk Premium'', ''ERP'']"

fun bond_yield_rows ::
  "(string \<Rightarrow> real option) \<Rightarrow> (real \<Rightarrow> string) \<Rightarrow> nat \<Rightarrow> nat \<Rightarrow> cell list list \<Rightarrow>
   (string \<rightharpoonup> real) \<Rightarrow> (string \<rightharpoonup> real)" where
  "bond_yield_rows pf ps ci vi [] data = data"
| "bond_yield_rows pf ps ci vi (row # rest) data =
     (if notna (cell_at row ci) \<and> notna (cell_at row vi) then
        (let country = strip (py_str ps (cell_at row ci))
         in case py_float pf (cell_at row vi) of
              None \<Rightarrow> bond_yield_rows pf ps ci vi rest data
            | Some yield_value \<Rightarrow>
                bond_yield_rows pf ps ci vi rest
                  (data(upper country \<mapsto>
                     (if yield_value > 1 then yield_value / 100 else yield_value))))
      else bond_yield_rows pf ps ci vi rest data)"

definition load_bond_yield_data ::
  "(string \<Rightarrow> real option) \<Rightarrow> (real \<Rightarrow> string) \<Rightarrow> dataframe file_read \<Rightarrow>
   (string \<rightharpoonup> real) option \<Rightarrow> bool \<times> (string \<rightharpoonup> real) option" where
  "load_bond_yield_data pf ps file bond_yield_data =
     (case file of
        NotFound \<Rightarrow> (False, bond_yield_data)
      | ReadError \<Rightarrow> (False, bond_yield_data)
      | Loaded df \<Rightarrow>
          if ''Country'' \<notin> set (columns df) then (False, bond_yield_data)
          else (case first_present possible_yield_columns (columns df) of
                  None \<Rightarrow> (False, bond_yield_data)
                | Some yield_column \<Rightarrow>
                    (True, Some (bond_yield_rows pf ps
                                   (column_index (columns df) ''Country'')
                                   (column_index (columns df) yield_column)
                                   (rows df) Map.empty))))"

fun erp_rows ::
  "(string \<Rightarrow> real option) \<Rightarrow> (real \<Rightarrow> string) \<Rightarrow> nat \<Rightarrow> nat \<Rightarrow> cell list list \<Rightarrow>
   (string \<rightharpoonup> real) \<Rightarrow> (string \<rightharpoonup> real)" where
  "erp_rows pf ps ci vi [] data = data"
| "erp_rows pf ps ci vi (row # rest) data =
     (if notna (cell_at row ci) \<and> notna (cell_at row vi) then
        (let country = strip (py_str ps (cell_at row ci))
         in case py_float pf (cell_at row vi) of
              None \<Rightarrow> erp_rows pf ps ci vi rest data
            | Some erp \<Rightarrow> erp_rows pf ps ci vi rest (data(upper country \<mapsto> erp)))
      else erp_rows pf ps ci vi rest data)"

definition load_erp_data ::
  "(string \<Rightarrow> real option) \<Rightarrow> (real \<Rightarrow> string) \<Rightarrow> dataframe file_read \<Rightarrow>
   (string \<rightharpoonup> real) option \<Rightarrow> bool \<times> (string \<rightharpoonup> real) option" where
  "load_erp_data pf ps file erp_data =
     (case file of
        NotFound \<Rightarrow> (False, erp_data)
      | ReadError \<Rightarrow> (False, erp_data)
      | Loaded df \<Rightarrow>
          if ''Country'' \<notin> set (columns df) then (False, erp_data)
          else (case first_present possible_erp_columns (columns df) of
                  None \<Rightarrow> (False, erp_data)
                | Some erp_column \<Rightarrow>
                    (True, Some (erp_rows pf ps
                                   (column_index (columns df) ''Country'')
                                   (column_index (columns df) erp_column)
                                   (rows df) Map.empty))))"

subsection \<open>\<^verbatim>\<open>CostOfDebtCalculator\<close>: attributes\<close>

text \<open>
  One band of a rating table: the dictionary with the keys \<^verbatim>\<open>'min_ratio'\<close>,
  \<^verbatim>\<open>'max_ratio'\<close>, \<^verbatim>\<open>'rating'\<close> and \<^verbatim>\<open>'spread'\<close>. The last two fields are named
  \<open>entry_rating\<close> and \<open>entry_spread\<close>, apart from the calculator's attributes \<open>rating\<close>
  and \<open>spread\<close>.
\<close>

record rating_entry =
  min_ratio :: real
  max_ratio :: real
  entry_rating :: string
  entry_spread :: real

text \<open>
  \<^verbatim>\<open>self.company_type\<close> is one of three strings, the keys of
  \<^verbatim>\<open>self.synthetic_ratings_data\<close>; that dictionary is a function from the key to its table.
\<close>

datatype company_type = large_cap | small_cap | financial

type_synonym ratings_data = "company_type \<Rightarrow> rating_entry list"

datatype notice = Rating_assigned | Worst_rating_assigned

text \<open>
  The attributes the embedded methods read or write (\<^verbatim>\<open>ticker\<close>, \<^verbatim>\<open>company_info\<close>,
  \<^verbatim>\<open>market_cap\<close>, \<^verbatim>\<open>is_financial\<close> and \<^verbatim>\<open>bond_yield_data\<close> are left out), and
  \<open>console\<close>, the outcome notices printed by the rating assignment so far.
\<close>

record calculator =
  ebit :: "real option"
  interest_expense :: "real option"
  interest_coverage_ratio :: "real option"
  company_type :: "company_type option"
  rating :: "string option"
  spread :: "real option"
  risk_free_rate :: "real option"
  tax_rate :: "real option"
  cost_of_debt :: "real option"
  synthetic_ratings_data :: "ratings_data option"
  console :: "notice list"

subsection \<open>\<^verbatim>\<open>CostOfDebtCalculator.load_synthetic_ratings_data\<close>\<close>

text \<open>
  The sheet is read with \<^verbatim>\<open>header=None\<close>: a list of rows, a row a list of cells, \<^verbatim>\<open>row[k]\<close>
  a \<^verbatim>\<open>KeyError\<close> when the sheet has no column \<open>k\<close>. \<open>all_notna\<close> is the chain
  \<^verbatim>\<open>pd.notna(row[k]) and ...\<close>, which stops at the first empty cell.
\<close>

fun all_notna :: "cell list \<Rightarrow> nat list \<Rightarrow> py_error + bool" where
  "all_notna row [] = Inr True"
| "all_notna row (k # ks) =
     (if k < length row
      then (if notna (row ! k) then all_notna row ks else Inr False)
      else Inl KeyError)"

text \<open>
  One of the three \<^verbatim>\<open>try\<close> blocks of the loop body, for the block of four columns that
  starts at column \<open>k\<close>: the entry to append, if any. A \<^verbatim>\<open>ValueError\<close> raised by
  \<^verbatim>\<open>float(row[k + 3])\<close> is caught there and the row is skipped; a \<^verbatim>\<open>KeyError\<close> is not
  caught there.
\<close>

definition parse_block ::
  "(string \<Rightarrow> real option) \<Rightarrow> (real \<Rightarrow> string) \<Rightarrow> cell list \<Rightarrow> nat \<Rightarrow>
   py_error + rating_entry option" where
  "parse_block pf ps row k =
     (case all_notna row [k, k + 1, k + 2, k + 3] of
        Inl e \<Rightarrow> Inl e
      | Inr False \<Rightarrow> Inr None
      | Inr True \<Rightarrow>
          if is_number (row ! k) \<and> is_number (row ! (k + 1)) then
            (case (py_float pf (row ! k), py_float pf (row ! (k + 1)),
                   py_float pf (row ! (k + 3))) of
               (Some lo, Some hi, Some sp) \<Rightarrow>
                 Inr (Some \<lparr>min_ratio = lo, max_ratio = hi,
                            entry_rating = py_str ps (row ! (k + 2)), entry_spread = sp\<rparr>)
             | _ \<Rightarrow> Inr None)
          else Inr None)"

definition append_entry ::
  "ratings_data \<Rightarrow> company_type \<Rightarrow> rating_entry option \<Rightarrow> ratings_data" where
  "append_entry data ct e =
     (case e of None \<Rightarrow> data | Some x \<Rightarrow> data(ct := data ct @ [x]))"

text \<open>
  The loop over the rows from index 3 on. The dictionary is updated in place, so an
  exception that ends the loop leaves what was appended before it: the result is the
  dictionary and the error, if one ended the loop.
\<close>

fun ratings_rows ::
  "(string \<Rightarrow> real option) \<Rightarrow> (real \<Rightarrow> string) \<Rightarrow> cell list list \<Rightarrow> ratings_data \<Rightarrow>
   ratings_data \<times> py_error option" where
  "ratings_rows pf ps [] data = (data, None)"
| "ratings_rows pf ps (row # rest) data =
     (case parse_block pf ps row 0 of
        Inl e \<Rightarrow> (data, Some e)
      | Inr e0 \<Rightarrow>
          (let data0 = append_entry data large_cap e0
           in case parse_block pf ps row 5 of
                Inl e \<Rightarrow> (data0, Some e)
              | Inr e5 \<Rightarrow>
                  (let data5 = append_entry data0 small_cap e5
                   in case parse_block pf ps row 10 of
                        Inl e \<Rightarrow> (data5, Some e)
                      | Inr e10 \<Rightarrow>
                          ratings_rows pf ps rest (append_entry data5 financial e10))))"

text \<open>\<^verbatim>\<open>any(self.synthetic_ratings_data.values())\<close>: some table is a non-empty list.\<close>

definition any_values :: "ratings_data \<Rightarrow> bool" where
  "any_values data = (data large_cap \<noteq> [] \<or> data small_cap \<noteq> [] \<or> data financial \<noteq> [])"

definition load_synthetic_ratings_data ::
  "(string \<Rightarrow> real option) \<Rightarrow> (real \<Rightarrow> string) \<Rightarrow> cell list list file_read \<Rightarrow>
   calculator \<Rightarrow> bool \<times> calculator" where
  "load_synthetic_ratings_data pf ps file self =
     (case file of
        NotFound \<Rightarrow> (False, self)
      | ReadError \<Rightarrow> (False, self)
      | Loaded df \<Rightarrow>
          (case ratings_rows pf ps (drop 3 df) (\<lambda>_. []) of
             (data, Some e) \<Rightarrow> (False, self\<lparr>synthetic_ratings_data := Some data\<rparr>)
           | (data, None) \<Rightarrow>
               (if \<not> any_values data then False else True,
                self\<lparr>synthetic_ratings_data := Some data\<rparr>)))"

subsection \<open>Prompt loops\<close>

text \<open>
  Every numeric prompt of the calculators is the same loop:
  \<^verbatim>\<open>while True: try: x = input(...).strip(); if not x: continue; v = float(x); ...; break
  except ValueError: continue\<close>, where some loops reject a parsed value and
  \<^verbatim>\<open>continue\<close>. \<open>read_float pf accept lines\<close> is that loop with the acceptance test
  \<open>accept\<close>: the accepted number and the lines not yet read.
\<close>

fun read_float ::
  "(string \<Rightarrow> real option) \<Rightarrow> (real \<Rightarrow> bool) \<Rightarrow> string list \<Rightarrow>
   py_error + (real \<times> string list)" where
  "read_float pf accept [] = Inl EOFError"
| "read_float pf accept (l # ls) =
     (let x = strip l
      in if x = [] then read_float pf accept ls
         else (case pf x of
                 None \<Rightarrow> read_float pf accept ls
               | Some v \<Rightarrow> if accept v then Inr (v, ls) else read_float pf accept ls))"

subsection \<open>\<^verbatim>\<open>CostOfDebtCalculator.get_financial_inputs\<close>\<close>


subsection \<open>\<^verbatim>\<open>CostOfDebtCalculator.assign_synthetic_rating\<close>\<close>

text \<open>The \<^verbatim>\<open>for rating_entry in rating_table\<close> loop: the entry at which it returns.\<close>

fun first_match :: "rating_entry list \<Rightarrow> real \<Rightarrow> rating_entry option" where
  "first_match [] ratio = None"
| "first_match (rating_entry # rest) ratio =
     (if min_ratio rating_entry \<le> ratio \<and> ratio \<le> max_ratio rating_entry
      then Some rating_entry
      else first_match rest ratio)"

definition assign_synthetic_rating :: "calculator \<Rightarrow> py_error + (bool \<times> calculator)" where
  "assign_synthetic_rating self =
     (case synthetic_ratings_data self of
        None \<Rightarrow> Inr (False, self)
      | Some data \<Rightarrow>
          (case company_type self of
             None \<Rightarrow> Inl KeyError
           | Some ct \<Rightarrow>
               (let rating_table = data ct
                in case interest_coverage_ratio self of
                     None \<Rightarrow> Inl TypeError
                   | Some ratio \<Rightarrow>
                       (case first_match rating_table ratio of
                          Some rating_entry \<Rightarrow>
                            Inr (True,
                                 self\<lparr>rating := Some (entry_rating rating_entry),
                                      spread := Some (entry_spread rating_entry),
                                      console := console self @ [Rating_assigned]\<rparr>)
                        | None \<Rightarrow>
                            (case rating_table of
                               [] \<Rightarrow> Inl IndexError
                             | worst_rating # _ \<Rightarrow>
                                 Inr (True,
                                      self\<lparr>rating := Some (entry_rating worst_rating),
                                           spread := Some (entry_spread worst_rating),
                                           console :=
                                             console self @ [Worst_rating_assigned]\<rparr>))))))"

subsection \<open>\<^verbatim>\<open>CostOfDebtCalculator.calculate_cost_of_debt\<close>\<close>


subsection \<open>\<^verbatim>\<open>WACCCalculator\<close>\<close>

text \<open>
  The attributes of the WACC calculator. Its \<^verbatim>\<open>cost_of_debt\<close> and \<^verbatim>\<open>interest_expense\<close> are
  named \<open>wacc_cost_of_debt\<close> and \<open>wacc_interest_expense\<close>, apart from the attributes of the
  cost-of-debt calculator; \<^verbatim>\<open>company_info\<close> and \<^verbatim>\<open>valuation_method\<close> are left out.
\<close>

record wacc_calculator =
  cost_of_equity :: "real option"
  wacc_cost_of_debt :: "real option"
  ticker :: "string option"
  market_value_equity :: "real option"
  market_value_debt :: "real option"
  book_value_equity :: "real option"
  book_value_debt :: "real option"
  equity_value :: "real option"
  debt_value :: "real option"
  total_value :: "real option"
  weight_equity :: "real option"
  weight_debt :: "real option"
  wacc :: "real option"
  debt_maturity :: "real option"
  wacc_interest_expense :: "real option"


definition get_book_values ::
  "(string \<Rightarrow> real option) \<Rightarrow> wacc_calculator \<Rightarrow> string list \<Rightarrow>
   py_error + (bool \<times> wacc_calculator \<times> string list)" where
  "get_book_values pf self lines =
     (case read_float pf (\<lambda>_. True) lines of
        Inl e \<Rightarrow> Inl e
      | Inr (equity_input, lines1) \<Rightarrow>
          (case read_float pf (\<lambda>_. True) lines1 of
             Inl e \<Rightarrow> Inl e
           | Inr (debt_input, lines2) \<Rightarrow>
               Inr (True,
                    self\<lparr>book_value_equity := Some (equity_input * 1000000),
                         book_value_debt := Some (debt_input * 1000000),
                         equity_value := Some (equity_input * 1000000),
                         debt_value := Some (debt_input * 1000000)\<rparr>,
                    lines2)))"






definition calculate_wacc :: "wacc_calculator \<Rightarrow> py_error + (real option \<times> wacc_calculator)" where
  "calculate_wacc self =
     (case (cost_of_equity self, wacc_cost_of_debt self, equity_value self, debt_value self) of
        (Some ce, Some cd, Some ev, Some dv) \<Rightarrow>
          (let total = ev + dv
           in if total = 0 then Inl ZeroDivisionError
              else
                (let we = ev / total;
                     wd = dv / total;
                     result = ce * we + cd * wd
                 in Inr (Some result,
                         self\<lparr>total_value := Some total,
                              weight_equity := Some we,
                              weight_debt := Some wd,
                              wacc := Some result\<rparr>)))
      | _ \<Rightarrow> Inr (None, self))"

subsection \<open>Initial states and example inputs\<close>

text \<open>The attributes as \<^verbatim>\<open>__init__\<close> sets them: everything \<^verbatim>\<open>None\<close>, nothing printed.\<close>

definition calculator_init :: calculator where
  "calculator_init =
     \<lparr>ebit = None, interest_expense = None, interest_coverage_ratio = None,
      company_type = None, rating = None, spread = None, risk_free_rate = None,
      tax_rate = None, cost_of_debt = None, synthetic_ratings_data = None, console = []\<rparr>"

definition wacc_calculator_init :: wacc_calculator where
  "wacc_calculator_init =
     \<lparr>cost_of_equity = None, wacc_cost_of_debt = None, ticker = None,
      market_value_equity = None, market_value_debt = None, book_value_equity = None,
      book_value_debt = None, equity_value = None, debt_value = None, total_value = None,
      weight_equity = None, weight_debt = None, wacc = None, debt_maturity = None,
      wacc_interest_expense = None\<rparr>"


text \<open>Python's \<^verbatim>\<open>float(str)\<close> on the literals that the examples type at the prompts.\<close>

definition example_float :: "string \<Rightarrow> real option" where
  "example_float s =
     (if s = ''1500'' then Some 1500 else if s = ''75'' then Some 75
      else if s = ''0'' then Some 0 else if s = ''-100'' then Some (- 100)
      else if s = ''50'' then Some 50 else if s = ''10'' then Some 10
      else if s = ''5'' then Some 5 else if s = ''2'' then Some 2
      else if s = ''-3'' then Some (- 3) else None)"

text \<open>
  The table of the specification's example, loaded as the large-cap table of a sheet
  whose small-cap and financial blocks are empty, and the calculator after loading
  \<open>data\<close>, with company type \<open>ct\<close> and coverage ratio \<open>ratio\<close>.
\<close>

definition example_table :: "rating_entry list" where
  "example_table =
     [\<lparr>min_ratio = 0, max_ratio = 3 / 2, entry_rating = ''D'', entry_spread = 1 / 10\<rparr>,
      \<lparr>min_ratio = 3 / 2, max_ratio = 3, entry_rating = ''B'', entry_spread = 1 / 20\<rparr>,
      \<lparr>min_ratio = 3, max_ratio = 999, entry_rating = ''A'', entry_spread = 1 / 100\<rparr>]"

definition example_data :: ratings_data where
  "example_data = (\<lambda>_. [])(large_cap := example_table)"

definition example_sheet :: "cell list list" where
  "example_sheet =
     [[Text ''Synthetic ratings'', Blank, Blank, Blank, Blank,
       Blank, Blank, Blank, Blank, Blank, Blank, Blank, Blank, Blank],
      [Text ''Large cap'', Blank, Blank, Blank, Blank,
       Text ''Small cap'', Blank, Blank, Blank, Blank,
       Text ''Financial'', Blank, Blank, Blank],
      [Text ''>'', Text ''<='', Text ''Rating'', Text ''Spread'', Blank,
       Text ''>'', Text ''<='', Text ''Rating'', Text ''Spread'', Blank,
       Text ''>'', Text ''<='', Text ''Rating'', Text ''Spread''],
      [Num 0, Num (3 / 2), Text ''D'', Num (1 / 10), Blank,
       Blank, Blank, Blank, Blank, Blank, Blank, Blank, Blank, Blank],
      [Num (3 / 2), Num 3, Text ''B'', Num (1 / 20), Blank,
       Blank, Blank, Blank, Blank, Blank, Blank, Blank, Blank, Blank],
      [Num 3, Num 999, Text ''A'', Num (1 / 100), Blank,
       Blank, Blank, Blank, Blank, Blank, Blank, Blank, Blank, Blank]]"

definition rated_calculator :: "ratings_data \<Rightarrow> company_type \<Rightarrow> real \<Rightarrow> calculator" where
  "rated_calculator data ct ratio =
     calculator_init\<lparr>synthetic_ratings_data := Some data, company_type := Some ct,
                     interest_coverage_ratio := Some ratio\<rparr>"


section \<open>Properties\<close>

subsection \<open>Cost of debt\<close>




subsection \<open>WACC\<close>



text \<open>
  Counterexample to claim C3. The claim that the WACC computation fails whenever
  \<open>equity_value + debt_value \<le> 0\<close> and never divides by a non-positive total does not
  hold. Book values \<open>-100\<close> and \<open>50\<close> (in millions), typed at the prompts of
  \<^verbatim>\<open>get_book_values\<close>, give the total \<open>-50000000\<close>; \<^verbatim>\<open>calculate_wacc\<close> divides by it and
  returns \<open>0.15\<close>, with the weights \<open>2\<close> and \<open>-1\<close>.
\<close>

theorem calculate_wacc_negative_total:
  "get_book_values example_float
     (wacc_calculator_init\<lparr>cost_of_equity := Some (1 / 10), wacc_cost_of_debt := Some (1 / 20)\<rparr>)
     [''-100'', ''50'']
   = Inr (True,
          wacc_calculator_init\<lparr>cost_of_equity := Some (1 / 10),
            wacc_cost_of_debt := Some (1 / 20),
            book_value_equity := Some (- 100000000), book_value_debt := Some 50000000,
            equity_value := Some (- 100000000), debt_value := Some 50000000\<rparr>,
          [])
   \<and> (- 100000000 :: real) + 50000000 \<le> 0
   \<and> calculate_wacc
       (wacc_calculator_init\<lparr>cost_of_equity := Some (1 / 10),
          wacc_cost_of_debt := Some (1 / 20),
          book_value_equity := Some (- 100000000), book_value_debt := Some 50000000,
          equity_value := Some (- 100000000), debt_value := Some 50000000\<rparr>)
     = Inr (Some (3 / 20),
            wacc_calculator_init\<lparr>cost_of_equity := Some (1 / 10),
              wacc_cost_of_debt := Some (1 / 20),
              book_value_equity := Some (- 100000000), book_value_debt := Some 50000000,
              equity_value := Some (- 100000000), debt_value := Some 50000000,
              total_value := Some (- 50000000), weight_equity := Some 2,
              weight_debt := Some (- 1), wacc := Some (3 / 20)\<rparr>)"
  by (simp add: get_book_values_def calculate_wacc_def wacc_calculator_init_def
        example_float_def strip_def isspace_def Let_def)

text \<open>
  Claim C3, amended. \<^verbatim>\<open>calculate_wacc\<close> returns \<^verbatim>\<open>None\<close> and changes nothing when one of
  cost of equity, cost of debt, equity value and debt value is absent. With all four
  present it checks nothing about the total: a total of exactly \<open>0\<close> raises Python's
  \<^verbatim>\<open>ZeroDivisionError\<close>, and every other total, a negative one included, is divided by,
  the weighted sum being returned and stored.
\<close>

theorem calculate_wacc_total:
  "(cost_of_equity self = None \<or> wacc_cost_of_debt self = None \<or> equity_value self = None
      \<or> debt_value self = None \<longrightarrow> calculate_wacc self = Inr (None, self))
   \<and> (cost_of_equity self = Some ce \<and> wacc_cost_of_debt self = Some cd
        \<and> equity_value self = Some ev \<and> debt_value self = Some dv \<longrightarrow>
        (ev + dv = 0 \<longrightarrow> calculate_wacc self = Inl ZeroDivisionError)
      \<and> (ev + dv \<noteq> 0 \<longrightarrow>
           calculate_wacc self =
             Inr (Some (ce * (ev / (ev + dv)) + cd * (dv / (ev + dv))),
                  self\<lparr>total_value := Some (ev + dv),
                       weight_equity := Some (ev / (ev + dv)),
                       weight_debt := Some (dv / (ev + dv)),
                       wacc := Some (ce * (ev / (ev + dv)) + cd * (dv / (ev + dv)))\<rparr>)))"
  by (auto simp add: calculate_wacc_def Let_def split: option.splits)

theorem calculate_wacc_total_witness:
  "calculate_wacc wacc_calculator_init = Inr (None, wacc_calculator_init)
   \<and> calculate_wacc (wacc_calculator_init\<lparr>cost_of_equity := Some (1 / 10),
        wacc_cost_of_debt := Some (1 / 20), equity_value := Some (- 50), debt_value := Some 50\<rparr>)
       = Inl ZeroDivisionError
   \<and> calculate_wacc (wacc_calculator_init\<lparr>cost_of_equity := Some (1 / 10),
        wacc_cost_of_debt := Some (1 / 20), equity_value := Some (- 100), debt_value := Some 50\<rparr>)
       = Inr (Some (3 / 20),
              wacc_calculator_init\<lparr>cost_of_equity := Some (1 / 10),
                wacc_cost_of_debt := Some (1 / 20), equity_value := Some (- 100),
                debt_value := Some 50, total_value := Some (- 50), weight_equity := Some 2,
                weight_debt := Some (- 1), wacc := Some (3 / 20)\<rparr>)"
  using calculate_wacc_total
      [where self = wacc_calculator_init and ce = 0 and cd = 0 and ev = 0 and dv = 0]
    calculate_wacc_total
      [where self = "wacc_calculator_init\<lparr>cost_of_equity := Some (1 / 10),
          wacc_cost_of_debt := Some (1 / 20), equity_value := Some (- 50),
          debt_value := Some 50\<rparr>"
        and ce = "1 / 10" and cd = "1 / 20" and ev = "- 50" and dv = 50]
    calculate_wacc_total
      [where self = "wacc_calculator_init\<lparr>cost_of_equity := Some (1 / 10),
          wacc_cost_of_debt := Some (1 / 20), equity_value := Some (- 100),
          debt_value := Some 50\<rparr>"
        and ce = "1 / 10" and cd = "1 / 20" and ev = "- 100" and dv = 50]
  by (simp add: wacc_calculator_init_def)

subsection \<open>Rating assignment\<close>

lemma first_match_None_iff:
  "first_match t r = None \<longleftrightarrow> (\<forall>e \<in> set t. \<not> (min_ratio e \<le> r \<and> r \<le> max_ratio e))"
  by (induction t) auto

lemma first_match_first:
  "i < length t \<Longrightarrow> min_ratio (t ! i) \<le> r \<and> r \<le> max_ratio (t ! i) \<Longrightarrow>
   (\<forall>j < i. \<not> (min_ratio (t ! j) \<le> r \<and> r \<le> max_ratio (t ! j))) \<Longrightarrow>
   first_match t r = Some (t ! i)"
proof (induction t arbitrary: i)
  case Nil
  then show ?case by simp
next
  case (Cons e t)
  show ?case
  proof (cases i)
    case 0
    with Cons.prems show ?thesis by simp
  next
    case (Suc k)
    from Cons.prems(3) Suc have "\<not> (min_ratio e \<le> r \<and> r \<le> max_ratio e)"
      by (metis nth_Cons_0 zero_less_Suc)
    moreover have "first_match t r = Some (t ! k)"
    proof (rule Cons.IH)
      show "k < length t" using Cons.prems(1) Suc by simp
      show "min_ratio (t ! k) \<le> r \<and> r \<le> max_ratio (t ! k)" using Cons.prems(2) Suc by simp
      show "\<forall>j<k. \<not> (min_ratio (t ! j) \<le> r \<and> r \<le> max_ratio (t ! j))"
      proof (intro allI impI)
        fix j assume "j < k"
        then have "Suc j < i" using Suc by simp
        with Cons.prems(3) show "\<not> (min_ratio (t ! j) \<le> r \<and> r \<le> max_ratio (t ! j))"
          by (metis nth_Cons_Suc)
      qed
    qed
    ultimately show ?thesis using Suc by auto
  qed
qed

lemma all_notna_defined:
  "\<forall>k \<in> set ks. k < length row \<Longrightarrow> \<exists>b. all_notna row ks = Inr b"
  by (induction ks) auto

lemma parse_block_defined:
  assumes "k + 3 < length row"
  shows "\<exists>e. parse_block pf ps row k = Inr e"
proof -
  from assms have "\<forall>i \<in> set [k, k + 1, k + 2, k + 3]. i < length row" by simp
  from all_notna_defined [OF this] obtain b
    where "all_notna row [k, k + 1, k + 2, k + 3] = Inr b" by blast
  then show ?thesis
    unfolding parse_block_def
    by (cases b) (simp_all split: option.splits)
qed

lemma ratings_rows_defined:
  "\<forall>row \<in> set rs. 14 \<le> length row \<Longrightarrow> snd (ratings_rows pf ps rs data) = None"
proof (induction rs arbitrary: data)
  case Nil
  then show ?case by simp
next
  case (Cons row rs)
  then have len: "14 \<le> length row" by simp
  from len obtain e0 where e0: "parse_block pf ps row 0 = Inr e0"
    using parse_block_defined [of 0 row pf ps] by auto
  from len obtain e5 where e5: "parse_block pf ps row 5 = Inr e5"
    using parse_block_defined [of 5 row pf ps] by auto
  from len obtain e10 where e10: "parse_block pf ps row 10 = Inr e10"
    using parse_block_defined [of 10 row pf ps] by auto
  from Cons.prems have "\<forall>row \<in> set rs. 14 \<le> length row" by simp
  from Cons.IH [OF this] e0 e5 e10 show ?case
    by (simp add: Let_def)
qed

lemma example_sheet_rows:
  "ratings_rows pf ps (drop 3 example_sheet) (\<lambda>_. []) = (example_data, None)"
  by (simp add: example_sheet_def example_data_def example_table_def parse_block_def
      append_entry_def fun_eq_iff)

lemma rated_calculator_simps:
  "synthetic_ratings_data (rated_calculator data ct ratio) = Some data"
  "company_type (rated_calculator data ct ratio) = Some ct"
  "interest_coverage_ratio (rated_calculator data ct ratio) = Some ratio"
  "console (rated_calculator data ct ratio) = []"
  by (simp_all add: rated_calculator_def calculator_init_def)

lemma example_data_simps:
  "example_data large_cap = example_table"
  "example_data small_cap = []"
  "example_data financial = []"
  by (simp_all add: example_data_def)

text \<open>
  Counterexample to claim C2. The claim that for every rating table the fallback
  returns the first entry instead of failing does not hold for an empty table: with no
  entry there is no first entry, and \<^verbatim>\<open>rating_table[0]\<close> raises \<^verbatim>\<open>IndexError\<close>. The
  financial table of the example data is empty.
\<close>

theorem assign_synthetic_rating_empty_table:
  "example_data financial = []
   \<and> assign_synthetic_rating (rated_calculator example_data financial 2) = Inl IndexError"
  by (simp add: assign_synthetic_rating_def rated_calculator_def calculator_init_def
      example_data_def)

text \<open>
  Claim C2, amended. For every non-empty rating table and every coverage ratio, the
  assignment scans the table in stored order and returns \<^verbatim>\<open>True\<close> with the rating and
  spread of the first band with \<open>min_ratio \<le> ratio \<le> max_ratio\<close> (so a ratio on a
  boundary shared by two bands resolves to the earlier band); if no band contains the
  ratio, it returns \<^verbatim>\<open>True\<close> with the rating and spread of the table's first entry.
\<close>

theorem assign_synthetic_rating_first_match:
  assumes "synthetic_ratings_data self = Some data" and "company_type self = Some ct"
    and "interest_coverage_ratio self = Some ratio" and "data ct \<noteq> []"
  shows "(\<forall>i < length (data ct).
            min_ratio (data ct ! i) \<le> ratio \<and> ratio \<le> max_ratio (data ct ! i)
            \<and> (\<forall>j < i. \<not> (min_ratio (data ct ! j) \<le> ratio \<and> ratio \<le> max_ratio (data ct ! j)))
            \<longrightarrow> assign_synthetic_rating self =
                  Inr (True, self\<lparr>rating := Some (entry_rating (data ct ! i)),
                                  spread := Some (entry_spread (data ct ! i)),
                                  console := console self @ [Rating_assigned]\<rparr>))
       \<and> ((\<forall>e \<in> set (data ct). \<not> (min_ratio e \<le> ratio \<and> ratio \<le> max_ratio e))
            \<longrightarrow> assign_synthetic_rating self =
                  Inr (True, self\<lparr>rating := Some (entry_rating (data ct ! 0)),
                                  spread := Some (entry_spread (data ct ! 0)),
                                  console := console self @ [Worst_rating_assigned]\<rparr>))"
proof (intro conjI allI impI)
  fix i
  assume "i < length (data ct)"
    and "min_ratio (data ct ! i) \<le> ratio \<and> ratio \<le> max_ratio (data ct ! i)
         \<and> (\<forall>j < i. \<not> (min_ratio (data ct ! j) \<le> ratio \<and> ratio \<le> max_ratio (data ct ! j)))"
  then have "first_match (data ct) ratio = Some (data ct ! i)"
    by (intro first_match_first) auto
  with assms show "assign_synthetic_rating self =
      Inr (True, self\<lparr>rating := Some (entry_rating (data ct ! i)),
                      spread := Some (entry_spread (data ct ! i)),
                      console := console self @ [Rating_assigned]\<rparr>)"
    by (simp add: assign_synthetic_rating_def Let_def)
next
  assume "\<forall>e \<in> set (data ct). \<not> (min_ratio e \<le> ratio \<and> ratio \<le> max_ratio e)"
  then have "first_match (data ct) ratio = None"
    by (simp add: first_match_None_iff)
  with assms show "assign_synthetic_rating self =
      Inr (True, self\<lparr>rating := Some (entry_rating (data ct ! 0)),
                      spread := Some (entry_spread (data ct ! 0)),
                      console := console self @ [Worst_rating_assigned]\<rparr>)"
    by (cases "data ct") (simp_all add: assign_synthetic_rating_def Let_def)
qed

theorem assign_synthetic_rating_first_match_witness:
  "assign_synthetic_rating (rated_calculator example_data large_cap (3 / 2)) =
     Inr (True, (rated_calculator example_data large_cap (3 / 2))
                  \<lparr>rating := Some ''D'', spread := Some (1 / 10), console := [Rating_assigned]\<rparr>)
   \<and> assign_synthetic_rating (rated_calculator example_data large_cap 2) =
     Inr (True, (rated_calculator example_data large_cap 2)
                  \<lparr>rating := Some ''B'', spread := Some (1 / 20), console := [Rating_assigned]\<rparr>)
   \<and> assign_synthetic_rating (rated_calculator example_data large_cap (- 1)) =
     Inr (True, (rated_calculator example_data large_cap (- 1))
                  \<lparr>rating := Some ''D'', spread := Some (1 / 10),
                    console := [Worst_rating_assigned]\<rparr>)"
proof -
  have ne: "example_data large_cap \<noteq> []"
    by (simp add: example_data_simps example_table_def)
  have a: "assign_synthetic_rating (rated_calculator example_data large_cap (3 / 2)) =
     Inr (True, (rated_calculator example_data large_cap (3 / 2))
                  \<lparr>rating := Some ''D'', spread := Some (1 / 10), console := [Rating_assigned]\<rparr>)"
    using assign_synthetic_rating_first_match [where self = "rated_calculator example_data large_cap (3 / 2)"
        and data = example_data and ct = large_cap and ratio = "3 / 2",
        OF rated_calculator_simps(1) rated_calculator_simps(2)
        rated_calculator_simps(3) ne, THEN conjunct1, rule_format, of 0]
    by (simp add: example_data_simps example_table_def rated_calculator_simps)
  have b: "assign_synthetic_rating (rated_calculator example_data large_cap 2) =
     Inr (True, (rated_calculator example_data large_cap 2)
                  \<lparr>rating := Some ''B'', spread := Some (1 / 20), console := [Rating_assigned]\<rparr>)"
    using assign_synthetic_rating_first_match [where self = "rated_calculator example_data large_cap 2"
        and data = example_data and ct = large_cap and ratio = "2",
        OF rated_calculator_simps(1) rated_calculator_simps(2)
        rated_calculator_simps(3) ne, THEN conjunct1, rule_format, of 1]
    by (simp add: example_data_simps example_table_def rated_calculator_simps)
  have no: "\<forall>e \<in> set (example_data large_cap). \<not> (min_ratio e \<le> - 1 \<and> - 1 \<le> max_ratio e)"
    by (simp add: example_data_simps example_table_def)
  have c: "assign_synthetic_rating (rated_calculator example_data large_cap (- 1)) =
     Inr (True, (rated_calculator example_data large_cap (- 1))
                  \<lparr>rating := Some ''D'', spread := Some (1 / 10),
                    console := [Worst_rating_assigned]\<rparr>)"
    using assign_synthetic_rating_first_match [where self = "rated_calculator example_data large_cap (- 1)"
        and data = example_data and ct = large_cap and ratio = "- 1",
        OF rated_calculator_simps(1) rated_calculator_simps(2)
        rated_calculator_simps(3) ne, THEN conjunct2, THEN mp, OF no]
    by (simp add: example_data_simps example_table_def rated_calculator_simps)
  from a b c show ?thesis by blast
qed

text \<open>
  Counterexample to claim C5. The claim that the fallback is marked on the result does
  not hold. In the example table the ratio \<open>-1\<close> matches no band and the ratio \<open>1\<close>
  lies in the first band: both calls return \<^verbatim>\<open>True\<close> and set the rating \<open>D\<close> and the
  spread \<open>0.10\<close>; they differ only in the notice printed.
\<close>

theorem assign_synthetic_rating_fallback_same_result:
  "assign_synthetic_rating (rated_calculator example_data large_cap (- 1)) =
     Inr (True, (rated_calculator example_data large_cap (- 1))
                  \<lparr>rating := Some ''D'', spread := Some (1 / 10),
                    console := [Worst_rating_assigned]\<rparr>)
   \<and> assign_synthetic_rating (rated_calculator example_data large_cap 1) =
     Inr (True, (rated_calculator example_data large_cap 1)
                  \<lparr>rating := Some ''D'', spread := Some (1 / 10),
                    console := [Rating_assigned]\<rparr>)"
  by (simp add: assign_synthetic_rating_def rated_calculator_def calculator_init_def
      example_data_def example_table_def Let_def)

text \<open>
  Claim C5, amended. When the coverage ratio matches no band of a non-empty table, the
  assignment returns \<^verbatim>\<open>True\<close> and sets rating and spread to those of the first entry:
  the same returned value and the same two attributes as the in-range assignment of any
  ratio inside the first band. No returned value and no attribute marks the fallback; it
  shows only in the notice that is printed.
\<close>

theorem assign_synthetic_rating_fallback_unmarked:
  assumes "synthetic_ratings_data self = Some data" and "company_type self = Some ct"
    and "interest_coverage_ratio self = Some ratio"
    and "data ct = worst_rating # rest"
    and "\<forall>e \<in> set (data ct). \<not> (min_ratio e \<le> ratio \<and> ratio \<le> max_ratio e)"
  shows "assign_synthetic_rating self =
           Inr (True, self\<lparr>rating := Some (entry_rating worst_rating),
                           spread := Some (entry_spread worst_rating),
                           console := console self @ [Worst_rating_assigned]\<rparr>)
       \<and> (\<forall>r. min_ratio worst_rating \<le> r \<and> r \<le> max_ratio worst_rating \<longrightarrow>
             assign_synthetic_rating (self\<lparr>interest_coverage_ratio := Some r\<rparr>) =
               Inr (True, self\<lparr>interest_coverage_ratio := Some r,
                               rating := Some (entry_rating worst_rating),
                               spread := Some (entry_spread worst_rating),
                               console := console self @ [Rating_assigned]\<rparr>))"
proof (intro conjI allI impI)
  from assms(5) have "first_match (data ct) ratio = None"
    by (simp add: first_match_None_iff)
  with assms(1-4) show "assign_synthetic_rating self =
           Inr (True, self\<lparr>rating := Some (entry_rating worst_rating),
                           spread := Some (entry_spread worst_rating),
                           console := console self @ [Worst_rating_assigned]\<rparr>)"
    by (simp add: assign_synthetic_rating_def Let_def)
next
  fix r
  assume "min_ratio worst_rating \<le> r \<and> r \<le> max_ratio worst_rating"
  with assms(1,2,4) show "assign_synthetic_rating (self\<lparr>interest_coverage_ratio := Some r\<rparr>) =
               Inr (True, self\<lparr>interest_coverage_ratio := Some r,
                               rating := Some (entry_rating worst_rating),
                               spread := Some (entry_spread worst_rating),
                               console := console self @ [Rating_assigned]\<rparr>)"
    by (simp add: assign_synthetic_rating_def Let_def)
qed

theorem assign_synthetic_rating_fallback_unmarked_witness:
  "assign_synthetic_rating (rated_calculator example_data large_cap 1000) =
     Inr (True, (rated_calculator example_data large_cap 1000)
                  \<lparr>rating := Some ''D'', spread := Some (1 / 10),
                    console := [Worst_rating_assigned]\<rparr>)
   \<and> assign_synthetic_rating
       ((rated_calculator example_data large_cap 1000)\<lparr>interest_coverage_ratio := Some (1 / 2)\<rparr>) =
     Inr (True, (rated_calculator example_data large_cap 1000)
                  \<lparr>interest_coverage_ratio := Some (1 / 2),
                    rating := Some ''D'', spread := Some (1 / 10),
                    console := [Rating_assigned]\<rparr>)"
proof -
  have t: "example_data large_cap =
      \<lparr>min_ratio = 0, max_ratio = 3 / 2, entry_rating = ''D'', entry_spread = 1 / 10\<rparr> #
      [\<lparr>min_ratio = 3 / 2, max_ratio = 3, entry_rating = ''B'', entry_spread = 1 / 20\<rparr>,
       \<lparr>min_ratio = 3, max_ratio = 999, entry_rating = ''A'', entry_spread = 1 / 100\<rparr>]"
    by (simp add: example_data_simps example_table_def)
  have no: "\<forall>e \<in> set (example_data large_cap). \<not> (min_ratio e \<le> 1000 \<and> 1000 \<le> max_ratio e)"
    by (simp add: example_data_simps example_table_def)
  show ?thesis
    using assign_synthetic_rating_fallback_unmarked [where self = "rated_calculator example_data large_cap 1000"
        and data = example_data and ct = large_cap and ratio = 1000,
        OF rated_calculator_simps(1) rated_calculator_simps(2)
        rated_calculator_simps(3) t no, THEN conjunct1]
      assign_synthetic_rating_fallback_unmarked [where self = "rated_calculator example_data large_cap 1000"
        and data = example_data and ct = large_cap and ratio = 1000,
        OF rated_calculator_simps(1) rated_calculator_simps(2)
        rated_calculator_simps(3) t no, THEN conjunct2, rule_format, of "1 / 2"]
    by (simp add: rated_calculator_simps)
qed

text \<open>
  Claim C10. Loading the synthetic ratings from a sheet of at least 14 columns returns
  \<^verbatim>\<open>True\<close> exactly when one of the three parsed tables is non-empty, while the
  assignment reads only the table of the company's type: when that table is empty the assignment raises \<^verbatim>\<open>IndexError\<close> (no band can match, and
  the fallback indexes an empty list), and when it is non-empty the assignment returns
  \<^verbatim>\<open>True\<close>. There is a sheet that loads with \<^verbatim>\<open>True\<close> and on which the assignment for a
  small-cap company raises \<^verbatim>\<open>IndexError\<close>.
\<close>

theorem load_then_assign_empty_selected_table:
  "((\<forall>row \<in> set df. 14 \<le> length row)
      \<and> data = fst (ratings_rows pf ps (drop 3 df) (\<lambda>_. [])) \<longrightarrow>
      load_synthetic_ratings_data pf ps (Loaded df) self =
        (data large_cap \<noteq> [] \<or> data small_cap \<noteq> [] \<or> data financial \<noteq> [],
         self\<lparr>synthetic_ratings_data := Some data\<rparr>))
   \<and> (synthetic_ratings_data self = Some data \<and> company_type self = Some ct
        \<and> interest_coverage_ratio self = Some ratio \<longrightarrow>
        (data ct = [] \<longrightarrow> assign_synthetic_rating self = Inl IndexError)
      \<and> (data ct \<noteq> [] \<longrightarrow> (\<exists>self'. assign_synthetic_rating self = Inr (True, self'))))
   \<and> (\<exists>sheet loaded r.
         load_synthetic_ratings_data pf ps (Loaded sheet) calculator_init = (True, loaded)
       \<and> assign_synthetic_rating
           (loaded\<lparr>company_type := Some small_cap, interest_coverage_ratio := Some r\<rparr>)
         = Inl IndexError)"
proof (intro conjI impI)
  assume h: "(\<forall>row \<in> set df. 14 \<le> length row)
      \<and> data = fst (ratings_rows pf ps (drop 3 df) (\<lambda>_. []))"
  then have "\<forall>row \<in> set (drop 3 df). 14 \<le> length row"
    by (meson in_set_dropD)
  from ratings_rows_defined [OF this]
  have "ratings_rows pf ps (drop 3 df) (\<lambda>_. []) = (data, None)"
    using h by (metis prod.collapse)
  then show "load_synthetic_ratings_data pf ps (Loaded df) self =
        (data large_cap \<noteq> [] \<or> data small_cap \<noteq> [] \<or> data financial \<noteq> [],
         self\<lparr>synthetic_ratings_data := Some data\<rparr>)"
    by (simp add: load_synthetic_ratings_data_def any_values_def)
next
  assume "synthetic_ratings_data self = Some data \<and> company_type self = Some ct
        \<and> interest_coverage_ratio self = Some ratio" and "data ct = []"
  then show "assign_synthetic_rating self = Inl IndexError"
    by (simp add: assign_synthetic_rating_def Let_def)
next
  assume "synthetic_ratings_data self = Some data \<and> company_type self = Some ct
        \<and> interest_coverage_ratio self = Some ratio" and "data ct \<noteq> []"
  then show "\<exists>self'. assign_synthetic_rating self = Inr (True, self')"
    by (cases "data ct")
       (auto simp add: assign_synthetic_rating_def Let_def split: option.splits)
next
  have "load_synthetic_ratings_data pf ps (Loaded example_sheet) calculator_init =
      (True, calculator_init\<lparr>synthetic_ratings_data := Some example_data\<rparr>)"
    by (simp add: load_synthetic_ratings_data_def example_sheet_rows any_values_def
        example_data_simps example_table_def)
  moreover have "assign_synthetic_rating
      (calculator_init\<lparr>synthetic_ratings_data := Some example_data,
         company_type := Some small_cap, interest_coverage_ratio := Some (- 1)\<rparr>)
      = Inl IndexError"
    by (simp add: assign_synthetic_rating_def calculator_init_def example_data_simps Let_def)
  ultimately show "\<exists>sheet loaded r.
         load_synthetic_ratings_data pf ps (Loaded sheet) calculator_init = (True, loaded)
       \<and> assign_synthetic_rating
           (loaded\<lparr>company_type := Some small_cap, interest_coverage_ratio := Some r\<rparr>)
         = Inl IndexError"
    by (intro exI [of _ example_sheet]
          exI [of _ "calculator_init\<lparr>synthetic_ratings_data := Some example_data\<rparr>"]
          exI [of _ "- 1"]) simp
qed

theorem load_then_assign_empty_selected_table_witness:
  "load_synthetic_ratings_data example_float (\<lambda>_. []) (Loaded example_sheet) calculator_init =
     (True, calculator_init\<lparr>synthetic_ratings_data := Some example_data\<rparr>)
   \<and> assign_synthetic_rating (rated_calculator example_data small_cap 25) = Inl IndexError
   \<and> (\<exists>self'. assign_synthetic_rating (rated_calculator example_data large_cap 25)
               = Inr (True, self'))"
proof -
  note t = load_then_assign_empty_selected_table [where pf = example_float and ps = "\<lambda>_. []" and df = example_sheet
      and data = example_data and self = calculator_init]
  note u = load_then_assign_empty_selected_table [where self = "rated_calculator example_data small_cap 25"
      and data = example_data and ct = small_cap and ratio = 25]
  note v = load_then_assign_empty_selected_table [where self = "rated_calculator example_data large_cap 25"
      and data = example_data and ct = large_cap and ratio = 25]
  have w: "\<forall>row \<in> set example_sheet. 14 \<le> length row"
    by (simp add: example_sheet_def)
  from t w have "load_synthetic_ratings_data example_float (\<lambda>_. []) (Loaded example_sheet)
      calculator_init = (True, calculator_init\<lparr>synthetic_ratings_data := Some example_data\<rparr>)"
    by (simp add: example_sheet_rows example_data_simps example_table_def)
  moreover from u have
    "assign_synthetic_rating (rated_calculator example_data small_cap 25) = Inl IndexError"
    by (simp add: rated_calculator_simps example_data_simps)
  moreover from v have
    "\<exists>self'. assign_synthetic_rating (rated_calculator example_data large_cap 25)
               = Inr (True, self')"
    by (simp add: rated_calculator_simps example_data_simps example_table_def)
  ultimately show ?thesis by blast
qed

subsection \<open>Prompt loops\<close>


lemma read_float_first:
  "strip l \<noteq> [] \<Longrightarrow> pf (strip l) = Some v \<Longrightarrow> accept v \<Longrightarrow>
   read_float pf accept (l # ls) = Inr (v, ls)"
  by (simp add: Let_def)

lemma read_float_rejected:
  "pf (strip l) = Some v \<Longrightarrow> \<not> accept v \<Longrightarrow>
   read_float pf accept (l # ls) = read_float pf accept ls"
  by (simp add: Let_def)

subsection \<open>Coverage ratio\<close>



subsection \<open>Market value of debt\<close>







subsection \<open>Bond-yield and equity-risk-premium tables\<close>

lemma upper_strip_italy: "upper (strip '' Italy '') = ''ITALY''"
  by code_simp

lemma erp_rows_eq_bond_yield_rows:
  "(\<forall>row \<in> set rs. \<forall>v. py_float pf (cell_at row vi) = Some v \<longrightarrow> v \<le> 1) \<Longrightarrow>
   erp_rows pf ps ci vi rs data = bond_yield_rows pf ps ci vi rs data"
  by (induction rs arbitrary: data) (auto simp add: Let_def split: option.splits)

text \<open>
  Claim C1 says that the bond-yield loader and the equity-risk-premium loader store the
  same fraction for the same raw value. They do for values up to \<open>1\<close> (lemma
  \<open>erp_rows_eq_bond_yield_rows\<close>) and both store the key trimmed and upper-cased, but
  \<^verbatim>\<open>load_erp_data\<close> has no division by 100: for the raw row \<open>(" Italy ", 5.5)\<close> the bond
  loader stores \<open>0.055\<close> under \<open>ITALY\<close> and the premium loader stores \<open>5.5\<close>.
\<close>

theorem load_erp_data_not_normalized:
  "load_bond_yield_data pf ps
     (Loaded \<lparr>columns = [''Country'', ''Yield 10y''],
              rows = [[Text '' Italy '', Num (11 / 2)]]\<rparr>) None
   = (True, Some [''ITALY'' \<mapsto> 11 / 200])
   \<and> load_erp_data pf ps
     (Loaded \<lparr>columns = [''Country'', ''ERP''],
              rows = [[Text '' Italy '', Num (11 / 2)]]\<rparr>) None
   = (True, Some [''ITALY'' \<mapsto> 11 / 2])"
  by (simp add: load_bond_yield_data_def load_erp_data_def possible_yield_columns_def
      possible_erp_columns_def cell_at_def upper_strip_italy)

end
